theory Spec2Isabelle
  imports Complex_Main
begin

section \<open>Configuration documents\<close>

text \<open>
  Both programs read a JSON document \<^verbatim>\<open>config.json\<close> into a Python dict and look
  fields up with \<^verbatim>\<open>dict.get(key, default)\<close>. A field is modelled as an option: \<open>None\<close>
  is an absent key, and every default of the source is written where the source writes
  it. Fields are typed as in the template document of \<^verbatim>\<open>TwitterDMScheduler.load_config\<close>
  (strings, numbers, lists), but for the key \<^verbatim>\<open>enabled\<close> of a recipient: the loop tests
  the truth value of whatever the document holds there, so that field is any JSON value.
  A nested settings dict that is absent behaves as one whose keys are all absent
  (\<^verbatim>\<open>config.get('schedule_settings', {})\<close>), so the nested dicts are flattened into
  one record.

  In \<^verbatim>\<open>DM.py\<close> a Python \<^verbatim>\<open>str\<close> is a \<open>string\<close>: the program only passes its strings
  on and concatenates them. Its two literals that are not ASCII are written as their
  UTF-8 bytes; nothing below depends on their content. In \<^verbatim>\<open>dm_sender.py\<close>, which strips,
  measures and slices the message text, a text is the list of its Unicode code points
  (\<open>ustring\<close> below), as Python counts them.
\<close>

text \<open>
  A value read by \<^verbatim>\<open>json.load\<close>. \<open>JNonFinite\<close> stands for the floats \<^verbatim>\<open>NaN\<close>,
  \<^verbatim>\<open>Infinity\<close> and \<^verbatim>\<open>-Infinity\<close>, which \<^verbatim>\<open>json.load\<close> accepts; every other float is
  a rational. \<open>json_truthy\<close> is Python's truth value of it.
\<close>

datatype json =
    JNull
  | JBool bool
  | JInt int
  | JFloat rat
  | JNonFinite
  | JStr string
  | JList "json list"
  | JDict "(string \<times> json) list"

definition json_truthy :: "json \<Rightarrow> bool" where
  "json_truthy v =
     (case v of
        JNull \<Rightarrow> False
      | JBool b \<Rightarrow> b
      | JInt i \<Rightarrow> i \<noteq> 0
      | JFloat x \<Rightarrow> x \<noteq> 0
      | JNonFinite \<Rightarrow> True
      | JStr t \<Rightarrow> t \<noteq> []
      | JList xs \<Rightarrow> xs \<noteq> []
      | JDict kvs \<Rightarrow> kvs \<noteq> [])"

record message =
  msg_text :: "string option"
  msg_image :: "string option"

text \<open>An entry of a message list: the old format (a plain string) or a dict.\<close>

datatype raw_message = Plain string | Structured message

record recipient =
  user_id :: "string option"
  username :: "string option"
  message_category :: "string option"
  custom_messages :: "raw_message list option"
  enabled :: "json option"

record config =
  enable_timestamp :: "bool option"
  randomize_messages :: "bool option"
  images_directory :: "string option"
  max_image_size_mb :: "rat option"
  message_templates :: "(string \<rightharpoonup> raw_message list) option"
  recipients :: "recipient list option"

text \<open>
  A text of \<^verbatim>\<open>dm_sender.py\<close>: the Unicode code points of a Python \<^verbatim>\<open>str\<close>, in order, so
  that \<open>length\<close> is \<^verbatim>\<open>len\<close> and \<open>take\<close> is the slice \<^verbatim>\<open>[:n]\<close>. \<open>ascii\<close> writes one
  from an ASCII literal.
\<close>

type_synonym ustring = "nat list"

definition ascii :: "string \<Rightarrow> ustring" where
  "ascii t = map of_char t"

section \<open>The outside world\<close>

text \<open>
  Everything the programs obtain from outside (the file system, the clock, the random
  generator, the platform's API) is an oracle of the record \<open>world\<close>. Each oracle takes
  the logical time of the consultation first (the field \<open>tick\<close> of the state, which every
  consultation advances), so that two consultations with the same arguments may answer
  differently. A claim about the programs is proved for every world.
\<close>

datatype dm_reply = Response bool | Forbidden | TooManyRequests | OtherError

text \<open>
  \<open>Response d\<close>: the call returned, and \<open>d\<close> is the truth value of \<^verbatim>\<open>response.data\<close>.
  The other three are the exceptions \<^verbatim>\<open>tweepy.errors.Forbidden\<close>,
  \<^verbatim>\<open>tweepy.TooManyRequests\<close> and any other \<^verbatim>\<open>Exception\<close>.
\<close>

datatype upload_reply = Media int string | UploadError

text \<open>\<open>Media i s\<close>: the returned object's \<^verbatim>\<open>media_id\<close> and \<^verbatim>\<open>media_id_string\<close>.\<close>

record world =
  path_exists :: "nat \<Rightarrow> string \<Rightarrow> bool"
  getsize :: "nat \<Rightarrow> string \<Rightarrow> nat option"
  media_upload :: "nat \<Rightarrow> string \<Rightarrow> upload_reply"
  create_direct_message :: "nat \<Rightarrow> string \<Rightarrow> string \<Rightarrow> string option \<Rightarrow> dm_reply"
  random_choice :: "nat \<Rightarrow> nat"
  now :: "nat \<Rightarrow> string"
  generate_content :: "nat \<Rightarrow> ustring \<Rightarrow> ustring option"
  random_random :: "nat \<Rightarrow> rat"
  get_random_image :: "nat \<Rightarrow> string option"
  create_conversation_message :: "nat \<Rightarrow> string \<Rightarrow> ustring \<Rightarrow> int option \<Rightarrow> dm_reply"

text \<open>
  \<open>getsize\<close> answers \<open>None\<close> when \<^verbatim>\<open>os.path.getsize\<close> raises. \<open>random_choice\<close> is the
  raw draw behind \<^verbatim>\<open>random.choice(xs)\<close>: the element chosen from a non-empty \<open>xs\<close> is
  \<open>xs ! (draw mod length xs)\<close>, so every element can be chosen and nothing else can.
  \<open>now\<close> is \<^verbatim>\<open>datetime.now().strftime("%Y-%m-%d %H:%M:%S")\<close>.

  The last four serve \<^verbatim>\<open>dm_sender.py\<close>, whose prompts and messages are lists of code
  points. \<open>generate_content\<close> is the text of the model's response to a prompt, \<open>None\<close>
  when the call or the access to \<^verbatim>\<open>response.text\<close> raises.
  \<open>random_random\<close> is \<^verbatim>\<open>random.random()\<close>, a floating-point number and so a rational.
  \<open>get_random_image\<close> is the result of \<^verbatim>\<open>DMSender.get_random_image\<close>, a path or \<^verbatim>\<open>None\<close>:
  that method reads the image folder inside a \<^verbatim>\<open>try\<close> that returns \<^verbatim>\<open>None\<close> on every
  exception, and no statement below depends on which file it picks.
  \<open>create_conversation_message\<close> is the call of \<^verbatim>\<open>DMSender.send_dm_to_user\<close>, which
  addresses the recipient by \<^verbatim>\<open>dm_conversation_id\<close> and passes the integer \<^verbatim>\<open>media_id\<close>.
\<close>

datatype event =
    ReadIndex
  | WriteIndex
  | MediaUpload string
  | CreateDM string string "string option"
  | Sleep nat
  | SkipDisabled "string option"
  | SkipNoUserId string
  | SkipNoMessages string
  | SendSucceeded string string
  | SendFailed string string
  | GenerateContent ustring
  | CreateDMConversation string ustring "int option"

text \<open>
  The observable actions of a cycle, in the order they happen: reading and rewriting
  \<^verbatim>\<open>message_index.json\<close>, the calls to the gateway (upload and direct message, the
  latter in the form of each program) and to the text generator with their arguments,
  \<^verbatim>\<open>time.sleep\<close> with its seconds, and the outcome lines the loop logs for a
  recipient. The log lines written inside the helper functions are not modelled.
\<close>

record state =
  index_file :: "(string \<rightharpoonup> int) option"
  trace :: "event list"
  tick :: nat

text \<open>
  \<open>index_file\<close> is the content of \<^verbatim>\<open>message_index.json\<close>, \<open>None\<close> while the file does
  not exist. Only the program writes it (the single-writer assumption of the design),
  its content is a JSON object of integers, and reading and rewriting it succeed.
\<close>

definition emit :: "event \<Rightarrow> state \<Rightarrow> state" where
  "emit e s = s\<lparr>trace := trace s @ [e]\<rparr>"

definition advance :: "state \<Rightarrow> state" where
  "advance s = s\<lparr>tick := Suc (tick s)\<rparr>"

definition truthy :: "string option \<Rightarrow> bool" where
  "truthy v = (case v of None \<Rightarrow> False | Some x \<Rightarrow> x \<noteq> [])"

section \<open>DM.py: TwitterDMScheduler\<close>

definition timestamp_label :: string where
  "timestamp_label = map char_of
     [10, 10, 233, 128, 129, 228, 191, 161, 230, 153, 130, 229, 136, 187, 58, 32 :: nat]"

definition default_text :: string where
  "default_text = map char_of
     [227, 131, 135, 227, 131, 149, 227, 130, 169, 227, 131, 171, 227, 131, 136,
      227, 131, 161, 227, 131, 131, 227, 130, 187, 227, 131, 188, 227, 130, 184 :: nat]"

definition default_messages :: "raw_message list" where
  "default_messages = [Structured \<lparr>msg_text = Some default_text, msg_image = None\<rparr>]"

text \<open>\<^verbatim>\<open>os.path.join\<close> of two components (POSIX).\<close>

definition path_join :: "string \<Rightarrow> string \<Rightarrow> string" where
  "path_join a b =
     (if b \<noteq> [] \<and> hd b = CHR ''/'' then b
      else if a = [] \<or> last a = CHR ''/'' then a @ b
      else a @ ''/'' @ b)"

definition upload_media :: "config \<Rightarrow> world \<Rightarrow> string \<Rightarrow> state \<Rightarrow> string option \<times> state" where
  "upload_media cfg w image_path s0 =
     (let s1 = advance s0 in
      if \<not> path_exists w (tick s0) image_path then (None, s1)
      else
        let max_size = (case max_image_size_mb cfg of None \<Rightarrow> 5 | Some m \<Rightarrow> m);
            s2 = advance s1
        in case getsize w (tick s1) image_path of
             None \<Rightarrow> (None, s2)
           | Some file_size \<Rightarrow>
               if of_nat file_size / (1024 * 1024) > max_size then (None, s2)
               else
                 let s3 = advance (emit (MediaUpload image_path) s2)
                 in (case media_upload w (tick s2) image_path of
                       UploadError \<Rightarrow> (None, s3)
                     | Media media_id media_id_string \<Rightarrow> (Some media_id_string, s3)))"

text \<open>
  The whole body stands in a \<^verbatim>\<open>try\<close> whose handler returns \<^verbatim>\<open>None\<close>. The size test
  divides the byte count by \<open>1024 * 1024\<close> in floating point, which is exact for every
  size below \<open>2 ^ 53\<close>, and compares with the configured number: the rational comparison
  here.
\<close>

definition send_dm :: "world \<Rightarrow> string \<Rightarrow> string \<Rightarrow> string option \<Rightarrow> state \<Rightarrow> bool \<times> state" where
  "send_dm w recipient_id message media_id s0 =
     (let media_arg = (if truthy media_id then media_id else None);
          s1 = advance (emit (CreateDM recipient_id message media_arg) s0)
      in case create_direct_message w (tick s0) recipient_id message media_arg of
           Response d \<Rightarrow> (d, s1)
         | Forbidden \<Rightarrow> (False, s1)
         | TooManyRequests \<Rightarrow> (False, s1)
         | OtherError \<Rightarrow> (False, s1))"

definition get_image_path :: "config \<Rightarrow> world \<Rightarrow> string option \<Rightarrow> state \<Rightarrow> string option \<times> state" where
  "get_image_path cfg w image_filename s0 =
     (case image_filename of
        None \<Rightarrow> (None, s0)
      | Some f \<Rightarrow>
          if f = [] then (None, s0)
          else
            let images_dir = (case images_directory cfg of None \<Rightarrow> ''images'' | Some d \<Rightarrow> d);
                image_path = path_join images_dir f;
                s1 = advance s0
            in if path_exists w (tick s0) image_path then (Some image_path, s1)
               else
                 let s2 = advance s1
                 in if path_exists w (tick s1) f then (Some f, s2) else (None, s2))"

definition normalize :: "raw_message \<Rightarrow> message" where
  "normalize msg = (case msg of
       Plain t \<Rightarrow> \<lparr>msg_text = Some t, msg_image = None\<rparr>
     | Structured m \<Rightarrow> m)"

text \<open>
  \<^verbatim>\<open>recipient.get('message_category', 'custom')\<close> and
  \<^verbatim>\<open>self.config.get('message_templates', {})\<close>.
\<close>

definition category_of :: "recipient \<Rightarrow> string" where
  "category_of r = (case message_category r of None \<Rightarrow> ''custom'' | Some c \<Rightarrow> c)"

definition templates_of :: "config \<Rightarrow> (string \<rightharpoonup> raw_message list)" where
  "templates_of cfg = (case message_templates cfg of None \<Rightarrow> Map.empty | Some t \<Rightarrow> t)"

definition get_messages_for_recipient :: "config \<Rightarrow> recipient \<Rightarrow> message list" where
  "get_messages_for_recipient cfg r =
     (let messages =
            (case custom_messages r of
               Some (m # ms) \<Rightarrow> m # ms
             | _ \<Rightarrow>
                 let category = category_of r;
                     templates = templates_of cfg
                 in (case templates category of
                       None \<Rightarrow> default_messages
                     | Some l \<Rightarrow> l))
      in map normalize messages)"

text \<open>
  \<^verbatim>\<open>if recipient.get('custom_messages')\<close> holds for a list that is present and not
  empty: the first case. An absent key and an empty list take the second.
\<close>

definition get_message_index :: "string \<Rightarrow> state \<Rightarrow> int \<times> state" where
  "get_message_index uid s =
     (case index_file s of
        Some indices \<Rightarrow> ((case indices uid of None \<Rightarrow> 0 | Some i \<Rightarrow> i), emit ReadIndex s)
      | None \<Rightarrow> (0, s))"

definition update_message_index :: "string \<Rightarrow> int \<Rightarrow> state \<Rightarrow> state" where
  "update_message_index uid index s0 =
     (let (indices, s1) =
            (case index_file s0 of
               Some m \<Rightarrow> (m, emit ReadIndex s0)
             | None \<Rightarrow> (Map.empty, s0))
      in emit WriteIndex (s1\<lparr>index_file := Some (indices(uid \<mapsto> index))\<rparr>))"

text \<open>
  The body of the loop of \<^verbatim>\<open>send_scheduled_messages\<close>, for one recipient. Its three
  commented sections (select the message, add the timestamp, process the image) are
  written as functions of their own, so that a statement can name their results.
\<close>

text \<open>The policy of the cycle: \<^verbatim>\<open>settings.get('randomize_messages', False)\<close>.\<close>

definition randomize :: "config \<Rightarrow> bool" where
  "randomize cfg = (case randomize_messages cfg of None \<Rightarrow> False | Some b \<Rightarrow> b)"

definition select_message :: "config \<Rightarrow> world \<Rightarrow> string \<Rightarrow> message list \<Rightarrow> state \<Rightarrow> message \<times> state" where
  "select_message cfg w uid messages s0 =
     (if randomize cfg
      then (messages ! (random_choice w (tick s0) mod length messages), advance s0)
      else
        let (message_index, s1) = get_message_index uid s0;
            message_data = messages ! nat (message_index mod int (length messages));
            s2 = update_message_index uid (message_index + 1) s1
        in (message_data, s2))"

definition add_timestamp :: "config \<Rightarrow> world \<Rightarrow> string \<Rightarrow> state \<Rightarrow> string \<times> state" where
  "add_timestamp cfg w message_text s0 =
     (if (case enable_timestamp cfg of None \<Rightarrow> True | Some b \<Rightarrow> b)
      then (message_text @ timestamp_label @ now w (tick s0), advance s0)
      else (message_text, s0))"

definition attach_image :: "config \<Rightarrow> world \<Rightarrow> message \<Rightarrow> state \<Rightarrow> string option \<times> state" where
  "attach_image cfg w message_data s0 =
     (if truthy (msg_image message_data)
      then
        let (image_path, s1) = get_image_path cfg w (msg_image message_data) s0
        in case image_path of
             None \<Rightarrow> (None, s1)
           | Some p \<Rightarrow> upload_media cfg w p s1
      else (None, s0))"

text \<open>\<^verbatim>\<open>message_data.get('text', '')\<close>.\<close>

definition text_of :: "message \<Rightarrow> string" where
  "text_of message_data = (case msg_text message_data of None \<Rightarrow> [] | Some t \<Rightarrow> t)"

text \<open>\<^verbatim>\<open>recipient.get('username', 'Unknown')\<close>.\<close>

definition display_name :: "recipient \<Rightarrow> string" where
  "display_name r = (case username r of None \<Rightarrow> ''Unknown'' | Some u \<Rightarrow> u)"

text \<open>The truth value of \<^verbatim>\<open>recipient.get('enabled', True)\<close>.\<close>

definition is_enabled :: "recipient \<Rightarrow> bool" where
  "is_enabled r = (case enabled r of None \<Rightarrow> True | Some v \<Rightarrow> json_truthy v)"

definition dispatch_recipient :: "config \<Rightarrow> world \<Rightarrow> recipient \<Rightarrow> state \<Rightarrow> state" where
  "dispatch_recipient cfg w r s0 =
     (if \<not> is_enabled r
      then emit (SkipDisabled (username r)) s0
      else
        let uname = display_name r in
        if \<not> truthy (user_id r) then emit (SkipNoUserId uname) s0
        else
          let uid = the (user_id r);
              messages = get_messages_for_recipient cfg r
          in
          if messages = [] then emit (SkipNoMessages uname) s0
          else
            let (message_data, s1) = select_message cfg w uid messages s0;
                message_text = text_of message_data;
                (full_message, s2) = add_timestamp cfg w message_text s1;
                (media_id, s3) = attach_image cfg w message_data s2;
                (success, s4) = send_dm w uid full_message media_id s3;
                s5 = emit (if success then SendSucceeded uname uid else SendFailed uname uid) s4
            in emit (Sleep 2) s5)"

text \<open>
  After \<open>normalize\<close> every entry is a dict, so the two \<^verbatim>\<open>isinstance(message_data, dict)\<close>
  tests of the loop are true. In the source the rotation branch reads the index, selects
  \<^verbatim>\<open>messages[message_index % len(messages)]\<close> and calls \<^verbatim>\<open>update_message_index\<close> with
  \<^verbatim>\<open>message_index + 1\<close>, all before the message is sent. \<open>the (user_id r)\<close> is read only where \<open>truthy (user_id r)\<close>
  has shown the identifier present.
\<close>

fun for_recipients :: "config \<Rightarrow> world \<Rightarrow> recipient list \<Rightarrow> state \<Rightarrow> state" where
  "for_recipients cfg w [] s = s"
| "for_recipients cfg w (r # rs) s = for_recipients cfg w rs (dispatch_recipient cfg w r s)"

definition recipient_list :: "config \<Rightarrow> recipient list" where
  "recipient_list cfg = (case recipients cfg of None \<Rightarrow> [] | Some rs \<Rightarrow> rs)"

definition send_scheduled_messages :: "config \<Rightarrow> world \<Rightarrow> state \<Rightarrow> state" where
  "send_scheduled_messages cfg w s = for_recipients cfg w (recipient_list cfg) s"

text \<open>Successive cycles of the scheduler, each in the world it meets.\<close>

fun run_cycles :: "config \<Rightarrow> world list \<Rightarrow> state \<Rightarrow> state" where
  "run_cycles cfg [] s = s"
| "run_cycles cfg (w # ws) s = run_cycles cfg ws (send_scheduled_messages cfg w s)"

section \<open>Observations on a trace\<close>

text \<open>The direct messages requested of the gateway: recipient, text and media.\<close>

definition dm_calls :: "event list \<Rightarrow> (string \<times> string \<times> string option) list" where
  "dm_calls tr =
     concat (map (\<lambda>e. case e of CreateDM u t m \<Rightarrow> [(u, t, m)] | _ \<Rightarrow> []) tr)"

text \<open>The same without the media: who was sent which text.\<close>

definition dm_texts :: "event list \<Rightarrow> (string \<times> string) list" where
  "dm_texts tr = map (\<lambda>(u, t, m). (u, t)) (dm_calls tr)"

text \<open>The accesses to \<^verbatim>\<open>message_index.json\<close>.\<close>

definition index_io :: "event list \<Rightarrow> event list" where
  "index_io tr = filter (\<lambda>e. e = ReadIndex \<or> e = WriteIndex) tr"

text \<open>
  The order of the accesses to the rotation store and to the gateway: each read and
  each rewrite of \<^verbatim>\<open>message_index.json\<close>, and each direct message with its recipient.
\<close>

datatype access = StoreRead | StoreWrite | GatewaySend string

definition accesses :: "event list \<Rightarrow> access list" where
  "accesses tr =
     concat (map (\<lambda>e. case e of
                ReadIndex \<Rightarrow> [StoreRead]
              | WriteIndex \<Rightarrow> [StoreWrite]
              | CreateDM u t m \<Rightarrow> [GatewaySend u]
              | _ \<Rightarrow> []) tr)"

text \<open>
  The accesses of a rotating cycle that sends to the identifiers \<open>us\<close>, in order.
  \<open>present\<close> tells whether \<^verbatim>\<open>message_index.json\<close> exists when the cycle starts; it
  exists from the first rewrite on.
\<close>

fun rotation_accesses :: "bool \<Rightarrow> string list \<Rightarrow> access list" where
  "rotation_accesses present [] = []"
| "rotation_accesses present (u # us) =
     (if present then [StoreRead, StoreRead] else []) @ [StoreWrite, GatewaySend u] @
     rotation_accesses True us"

text \<open>The outcome lines of the loop.\<close>

definition outcomes :: "event list \<Rightarrow> event list" where
  "outcomes tr =
     filter (\<lambda>e. case e of
                SkipDisabled n \<Rightarrow> True
              | SkipNoUserId n \<Rightarrow> True
              | SkipNoMessages n \<Rightarrow> True
              | SendSucceeded n u \<Rightarrow> True
              | SendFailed n u \<Rightarrow> True
              | _ \<Rightarrow> False) tr"

text \<open>
  A recipient the loop sends to: not disabled, with an identifier, with at least one
  message. The three tests are those of the loop, in its order.
\<close>

definition dispatched :: "config \<Rightarrow> recipient \<Rightarrow> bool" where
  "dispatched cfg r =
     (is_enabled r \<and> truthy (user_id r) \<and>
      get_messages_for_recipient cfg r \<noteq> [])"

text \<open>
  The candidate index the rotation resolves for a recipient in a state:
  \<^verbatim>\<open>get_message_index(user_id) % len(messages)\<close>.
\<close>

definition resolved_index :: "config \<Rightarrow> recipient \<Rightarrow> state \<Rightarrow> nat" where
  "resolved_index cfg r s =
     nat (fst (get_message_index (the (user_id r)) s)
          mod int (length (get_messages_for_recipient cfg r)))"

section \<open>dm\_sender.py: DMSender\<close>

record target_user =
  tu_user_id :: "string option"
  tu_username :: "string option"

record sender_config =
  message_prompts :: "ustring list option"
  fallback_messages :: "ustring list option"
  target_users :: "target_user list"
  image_enabled :: "bool option"
  send_probability :: "rat option"

text \<open>
  \<open>target_users\<close> is read with \<^verbatim>\<open>self.config['target_users']\<close>; \<^verbatim>\<open>validate_config\<close>
  has refused a document without the key when the object was built. \<open>image_enabled\<close> and
  \<open>send_probability\<close> are the keys \<^verbatim>\<open>enabled\<close> and \<^verbatim>\<open>send_probability\<close> of
  \<^verbatim>\<open>image_settings\<close>.
\<close>

datatype exn = IndexError

definition default_fallback :: ustring where
  "default_fallback =
     [12371, 12398, 12513, 12483, 12475, 12540, 12472, 12399, 34920, 31034, 12373, 12428,
      12394, 12356, 12399, 12378, 12384, 12424, 12290] @
     ascii ''https://github.com/coffin399/im64DMSender''"

text \<open>
  \<^verbatim>\<open>str.strip()\<close> removes the leading and the trailing white space. \<open>is_space\<close> is the
  white space of Python (\<^verbatim>\<open>str.isspace\<close> of one character): 29 code points, the last
  of them U+3000.
\<close>

definition is_space :: "nat \<Rightarrow> bool" where
  "is_space c =
     (c \<in> set [9, 10, 11, 12, 13, 28, 29, 30, 31, 32, 133, 160, 5760,
               8192, 8193, 8194, 8195, 8196, 8197, 8198, 8199, 8200, 8201, 8202,
               8232, 8233, 8239, 8287, 12288])"

definition strip :: "ustring \<Rightarrow> ustring" where
  "strip t = rev (dropWhile is_space (rev (dropWhile is_space t)))"

text \<open>
  The handler of \<^verbatim>\<open>generate_message\<close>: \<^verbatim>\<open>random.choice\<close> on the fallback pool. It runs
  outside any \<^verbatim>\<open>try\<close>, so the \<^verbatim>\<open>IndexError\<close> of an empty pool leaves the method.
\<close>

definition fallback_pool :: "sender_config \<Rightarrow> ustring list" where
  "fallback_pool cfg = (case fallback_messages cfg of None \<Rightarrow> [default_fallback] | Some p \<Rightarrow> p)"

definition fallback_message :: "sender_config \<Rightarrow> world \<Rightarrow> state \<Rightarrow> (exn + ustring) \<times> state" where
  "fallback_message cfg w s0 =
     (let pool = fallback_pool cfg
      in if pool = [] then (Inl IndexError, s0)
         else (Inr (pool ! (random_choice w (tick s0) mod length pool)), advance s0))"

definition generate_message :: "sender_config \<Rightarrow> world \<Rightarrow> state \<Rightarrow> (exn + ustring) \<times> state" where
  "generate_message cfg w s0 =
     (case message_prompts cfg of
        None \<Rightarrow> fallback_message cfg w s0
      | Some prompts \<Rightarrow>
          if prompts = [] then fallback_message cfg w s0
          else
            let selected_prompt = prompts ! (random_choice w (tick s0) mod length prompts);
                s1 = advance s0;
                s2 = advance (emit (GenerateContent selected_prompt) s1)
            in (case generate_content w (tick s1) selected_prompt of
                  None \<Rightarrow> fallback_message cfg w s2
                | Some response_text \<Rightarrow>
                    let message = strip response_text;
                        message = (if length message > 9500
                                   then take 9500 message @ ascii ''...'' else message)
                    in (Inr message, s2)))"

text \<open>
  A missing \<^verbatim>\<open>message_prompts\<close> key (\<^verbatim>\<open>KeyError\<close>), an empty prompt list (\<^verbatim>\<open>IndexError\<close>
  of \<^verbatim>\<open>random.choice\<close>) and a failing generation all raise inside the \<^verbatim>\<open>try\<close> and reach
  the handler.
\<close>

definition sender_upload_media :: "world \<Rightarrow> string \<Rightarrow> state \<Rightarrow> int option \<times> state" where
  "sender_upload_media w image_path s0 =
     (let s1 = advance s0
      in case getsize w (tick s0) image_path of
           None \<Rightarrow> (None, s1)
         | Some file_size \<Rightarrow>
             if file_size > 5 * 1024 * 1024 then (None, s1)
             else
               let s2 = advance (emit (MediaUpload image_path) s1)
               in (case media_upload w (tick s1) image_path of
                     UploadError \<Rightarrow> (None, s2)
                   | Media media_id media_id_string \<Rightarrow> (Some media_id, s2)))"

definition truthy_id :: "int option \<Rightarrow> bool" where
  "truthy_id v = (case v of None \<Rightarrow> False | Some i \<Rightarrow> i \<noteq> 0)"

definition send_dm_to_user :: "world \<Rightarrow> string \<Rightarrow> ustring \<Rightarrow> int option \<Rightarrow> state \<Rightarrow> bool \<times> state" where
  "send_dm_to_user w uid message media_id s0 =
     (let media_arg = (if truthy_id media_id then media_id else None);
          s1 = advance (emit (CreateDMConversation uid message media_arg) s0)
      in case create_conversation_message w (tick s0) uid message media_arg of
           Response d \<Rightarrow> (True, s1)
         | TooManyRequests \<Rightarrow> (False, emit (Sleep 900) s1)
         | Forbidden \<Rightarrow> (False, s1)
         | OtherError \<Rightarrow> (False, s1))"

text \<open>
  The part of the loop body of \<^verbatim>\<open>send_messages_to_all\<close> before the send: the message
  and the decision on the image. \<^verbatim>\<open>random.random()\<close> is drawn only when images are
  enabled (\<^verbatim>\<open>and\<close> evaluates its second operand only then).
\<close>

definition prepare_dm :: "sender_config \<Rightarrow> world \<Rightarrow> state \<Rightarrow> exn + (ustring \<times> int option \<times> state)" where
  "prepare_dm cfg w s0 =
     (case generate_message cfg w s0 of
        (Inl e, s1) \<Rightarrow> Inl e
      | (Inr message, s1) \<Rightarrow>
          if \<not> (case image_enabled cfg of None \<Rightarrow> False | Some b \<Rightarrow> b)
          then Inr (message, None, s1)
          else
            let s2 = advance s1
            in if random_random w (tick s1)
                    < (case send_probability cfg of None \<Rightarrow> 1 / 2 | Some p \<Rightarrow> p)
               then
                 let s3 = advance s2
                 in case get_random_image w (tick s2) of
                      None \<Rightarrow> Inr (message, None, s3)
                    | Some image_path \<Rightarrow>
                        if image_path = [] then Inr (message, None, s3)
                        else
                          let (media_id, s4) = sender_upload_media w image_path s3
                          in Inr (message, media_id, s4)
               else Inr (message, None, s2))"

text \<open>\<^verbatim>\<open>user_info.get('username', 'Unknown')\<close>.\<close>

definition target_name :: "target_user \<Rightarrow> string" where
  "target_name user_info = (case tu_username user_info of None \<Rightarrow> ''Unknown'' | Some u \<Rightarrow> u)"

definition dispatch_target_user ::
  "sender_config \<Rightarrow> world \<Rightarrow> target_user \<Rightarrow> nat \<times> state \<Rightarrow> exn + (nat \<times> state)" where
  "dispatch_target_user cfg w user_info cs =
     (let (success_count, s0) = cs;
          uname = target_name user_info
      in if \<not> truthy (tu_user_id user_info)
         then Inr (success_count, emit (SkipNoUserId uname) s0)
         else
           let uid = the (tu_user_id user_info)
           in case prepare_dm cfg w s0 of
                Inl e \<Rightarrow> Inl e
              | Inr (message, media_id, s1) \<Rightarrow>
                  let (sent, s2) = send_dm_to_user w uid message media_id s1;
                      (success_count', s3) =
                        (if sent then (success_count + 1, emit (SendSucceeded uname uid) s2)
                         else (success_count, emit (SendFailed uname uid) s2))
                  in Inr (success_count', emit (Sleep 3) s3))"

fun for_target_users ::
  "sender_config \<Rightarrow> world \<Rightarrow> target_user list \<Rightarrow> nat \<times> state \<Rightarrow> exn + (nat \<times> state)" where
  "for_target_users cfg w [] cs = Inr cs"
| "for_target_users cfg w (u # us) cs =
     (case dispatch_target_user cfg w u cs of
        Inl e \<Rightarrow> Inl e
      | Inr cs' \<Rightarrow> for_target_users cfg w us cs')"

definition send_messages_to_all :: "sender_config \<Rightarrow> world \<Rightarrow> state \<Rightarrow> exn + (nat \<times> state)" where
  "send_messages_to_all cfg w s = for_target_users cfg w (target_users cfg) (0, s)"

text \<open>
  The result is the final \<^verbatim>\<open>success_count\<close> with the state, or the exception that left
  the loop.
\<close>

text \<open>The direct messages \<^verbatim>\<open>send_dm_to_user\<close> requested: recipient, text and media.\<close>

definition conversation_calls :: "event list \<Rightarrow> (string \<times> ustring \<times> int option) list" where
  "conversation_calls tr =
     concat (map (\<lambda>e. case e of CreateDMConversation u t m \<Rightarrow> [(u, t, m)] | _ \<Rightarrow> []) tr)"

text \<open>
  What the generation of \<^verbatim>\<open>generate_message\<close> yields from a state: the response text,
  or \<open>None\<close> when its \<^verbatim>\<open>try\<close> block raises (no prompt list, an empty one, or a failing
  call). The prompt is drawn at the state's time and the model is called at the next.
\<close>

definition generated :: "sender_config \<Rightarrow> world \<Rightarrow> state \<Rightarrow> ustring option" where
  "generated cfg w s =
     (case message_prompts cfg of
        None \<Rightarrow> None
      | Some prompts \<Rightarrow>
          if prompts = [] then None
          else generate_content w (Suc (tick s))
                 (prompts ! (random_choice w (tick s) mod length prompts)))"

text \<open>
  The time at which the handler of \<^verbatim>\<open>generate_message\<close> draws from the pool, when the
  \<^verbatim>\<open>try\<close> block started in state \<open>s\<close> has raised: at once when there is no prompt to
  draw, after the draw of the prompt and the call of the model otherwise.
\<close>

definition fallback_time :: "sender_config \<Rightarrow> state \<Rightarrow> nat" where
  "fallback_time cfg s =
     (case message_prompts cfg of
        None \<Rightarrow> tick s
      | Some prompts \<Rightarrow> if prompts = [] then tick s else Suc (Suc (tick s)))"

text \<open>The world \<open>w\<close> but for the raw draw at time \<open>t\<close>, which is \<open>d\<close>.\<close>

definition with_draw :: "world \<Rightarrow> nat \<Rightarrow> nat \<Rightarrow> world" where
  "with_draw w t d = w\<lparr>random_choice := (random_choice w)(t := d)\<rparr>"

section \<open>Example documents and worlds\<close>

definition alice :: recipient where
  "alice = \<lparr>user_id = Some ''1001'', username = Some ''alice'', message_category = None,
     custom_messages = Some [Plain ''hello'', Plain ''again''], enabled = None\<rparr>"

definition bob :: recipient where
  "bob = \<lparr>user_id = Some ''1002'', username = Some ''bob'',
     message_category = Some ''greeting'', custom_messages = Some [], enabled = Some (JBool True)\<rparr>"

definition carol :: recipient where
  "carol = \<lparr>user_id = Some ''1003'', username = Some ''carol'', message_category = None,
     custom_messages =
       Some [Structured \<lparr>msg_text = Some ''look'', msg_image = Some ''cat.png''\<rparr>, Plain ''bye''],
     enabled = None\<rparr>"

definition dave :: recipient where
  "dave = \<lparr>user_id = Some ''1004'', username = None, message_category = Some ''news'',
     custom_messages = None, enabled = Some (JBool True)\<rparr>"

text \<open>A recipient whose \<^verbatim>\<open>enabled\<close> key holds \<^verbatim>\<open>null\<close>.\<close>

definition grace :: recipient where
  "grace = \<lparr>user_id = Some ''1005'', username = Some ''grace'', message_category = None,
     custom_messages = Some [Plain ''hello''], enabled = Some JNull\<rparr>"

definition example_config :: config where
  "example_config = \<lparr>enable_timestamp = Some False, randomize_messages = None,
     images_directory = None, max_image_size_mb = None,
     message_templates = Some [''greeting'' \<mapsto> [Plain ''good morning'', Plain ''good evening'']],
     recipients = Some [alice, bob, carol]\<rparr>"

definition solo_config :: config where
  "solo_config = example_config\<lparr>recipients := Some [alice]\<rparr>"

definition random_config :: config where
  "random_config = example_config\<lparr>randomize_messages := Some True\<rparr>"

text \<open>A world with no image file, whose gateway delivers every message.\<close>

definition quiet_world :: world where
  "quiet_world = \<lparr>path_exists = (\<lambda>t p. False), getsize = (\<lambda>t p. None),
     media_upload = (\<lambda>t p. UploadError),
     create_direct_message = (\<lambda>t u m x. Response True),
     random_choice = (\<lambda>t. t), now = (\<lambda>t. ''2026-01-01 00:00:00''),
     generate_content = (\<lambda>t p. None), random_random = (\<lambda>t. 0),
     get_random_image = (\<lambda>t. None),
     create_conversation_message = (\<lambda>t u m x. Response True)\<rparr>"

text \<open>The same, with a gateway that refuses every message.\<close>

definition refusing_world :: world where
  "refusing_world = quiet_world\<lparr>create_direct_message := (\<lambda>t u m x. Forbidden)\<rparr>"

text \<open>A world where \<^verbatim>\<open>images/cat.png\<close> exists and has 6000000 bytes, above 5 MB.\<close>

definition big_image_world :: world where
  "big_image_world = quiet_world\<lparr>path_exists := (\<lambda>t p. p = ''images/cat.png''),
     getsize := (\<lambda>t p. Some 6000000)\<rparr>"

definition fresh_state :: state where
  "fresh_state = \<lparr>index_file = None, trace = [], tick = 0\<rparr>"

definition erin :: target_user where
  "erin = \<lparr>tu_user_id = Some ''2001'', tu_username = Some ''erin''\<rparr>"

definition frank :: target_user where
  "frank = \<lparr>tu_user_id = Some ''2002'', tu_username = None\<rparr>"

definition sender_example :: sender_config where
  "sender_example = \<lparr>message_prompts = Some [ascii ''say hello''], fallback_messages = None,
     target_users = [erin, frank], image_enabled = None, send_probability = None\<rparr>"

text \<open>A pool whose only message has 9504 characters (the letter x).\<close>

definition long_fallback :: sender_config where
  "long_fallback = sender_example\<lparr>fallback_messages := Some [replicate 9504 120]\<rparr>"

text \<open>A pool of three messages.\<close>

definition pool_of_three :: sender_config where
  "pool_of_three =
     sender_example\<lparr>fallback_messages := Some [ascii ''one'', ascii ''two'', ascii ''three'']\<rparr>"

text \<open>
  A world whose model answers every prompt and whose gateway signals the rate limit for
  the conversation \<^verbatim>\<open>2001\<close> and delivers to every other.
\<close>

definition limited_world :: world where
  "limited_world = quiet_world\<lparr>generate_content := (\<lambda>t p. Some (ascii '' hello there '')),
     create_conversation_message :=
       (\<lambda>t u m x. if u = ''2001'' then TooManyRequests else Response True)\<rparr>"

text \<open>A world whose model answers every prompt with 9600 characters between two spaces.\<close>

definition wordy_world :: world where
  "wordy_world =
     quiet_world\<lparr>generate_content := (\<lambda>t p. Some ([32] @ replicate 9600 120 @ [32]))\<rparr>"

section \<open>Elementary facts\<close>

lemma emit_fields:
  "trace (emit e s) = trace s @ [e]"
  "index_file (emit e s) = index_file s"
  "tick (emit e s) = tick s"
  by (simp_all add: emit_def)

lemma advance_fields:
  "trace (advance s) = trace s"
  "index_file (advance s) = index_file s"
  "tick (advance s) = Suc (tick s)"
  by (simp_all add: advance_def)

lemmas fields = emit_fields advance_fields

lemma dm_calls_append: "dm_calls (xs @ ys) = dm_calls xs @ dm_calls ys"
  by (simp add: dm_calls_def)

lemma dm_calls_single:
  "dm_calls [] = []"
  "dm_calls (e # es) = (case e of CreateDM u t m \<Rightarrow> [(u, t, m)] | _ \<Rightarrow> []) @ dm_calls es"
  by (simp_all add: dm_calls_def)

lemma index_io_append: "index_io (xs @ ys) = index_io xs @ index_io ys"
  by (simp add: index_io_def)

lemma index_io_single:
  "index_io [] = []"
  "index_io (e # es) = (if e = ReadIndex \<or> e = WriteIndex then [e] else []) @ index_io es"
  by (simp_all add: index_io_def)

lemmas projs = dm_calls_append dm_calls_single index_io_append index_io_single

lemma accesses_simps:
  "accesses [] = []"
  "accesses (e # es) =
     (case e of ReadIndex \<Rightarrow> [StoreRead] | WriteIndex \<Rightarrow> [StoreWrite]
      | CreateDM u t m \<Rightarrow> [GatewaySend u] | _ \<Rightarrow> []) @ accesses es"
  "accesses (xs @ ys) = accesses xs @ accesses ys"
  by (simp_all add: accesses_def)

lemma outcomes_simps:
  "outcomes [] = []"
  "outcomes (xs @ ys) = outcomes xs @ outcomes ys"
  "outcomes (e # es) =
     (case e of SkipDisabled n \<Rightarrow> [e] | SkipNoUserId n \<Rightarrow> [e] | SkipNoMessages n \<Rightarrow> [e]
      | SendSucceeded n u \<Rightarrow> [e] | SendFailed n u \<Rightarrow> [e] | _ \<Rightarrow> []) @ outcomes es"
  by (simp_all add: outcomes_def split: event.splits)

lemma conversation_calls_simps:
  "conversation_calls [] = []"
  "conversation_calls (xs @ ys) = conversation_calls xs @ conversation_calls ys"
  "conversation_calls (e # es) =
     (case e of CreateDMConversation u t m \<Rightarrow> [(u, t, m)] | _ \<Rightarrow> []) @ conversation_calls es"
  by (simp_all add: conversation_calls_def)

text \<open>Unfolding the whole of a program, to evaluate it on an example.\<close>

lemmas run_defs =
  send_scheduled_messages_def recipient_list_def dispatch_recipient_def
  get_messages_for_recipient_def category_of_def templates_of_def normalize_def truthy_def
  select_message_def randomize_def get_message_index_def update_message_index_def add_timestamp_def attach_image_def
  get_image_path_def upload_media_def path_join_def
  send_dm_def emit_def advance_def text_of_def display_name_def resolved_index_def dispatched_def
  is_enabled_def json_truthy_def
  Let_def

lemmas example_defs =
  solo_config_def random_config_def example_config_def alice_def bob_def carol_def dave_def
  grace_def
  refusing_world_def quiet_world_def big_image_world_def fresh_state_def

lemmas sender_defs =
  send_messages_to_all_def dispatch_target_user_def prepare_dm_def generate_message_def
  fallback_message_def fallback_pool_def sender_upload_media_def send_dm_to_user_def
  truthy_def truthy_id_def target_name_def strip_def is_space_def generated_def
  fallback_time_def with_draw_def ascii_def emit_def advance_def Let_def

lemmas sender_examples =
  erin_def frank_def sender_example_def long_fallback_def pool_of_three_def limited_world_def
  wordy_world_def quiet_world_def fresh_state_def

section \<open>What each function of DM.py leaves unchanged\<close>

lemma upload_media_frame:
  "index_file (snd (upload_media cfg w p s)) = index_file s"
  "dm_calls (trace (snd (upload_media cfg w p s))) = dm_calls (trace s)"
  "index_io (trace (snd (upload_media cfg w p s))) = index_io (trace s)"
  by (simp_all add: upload_media_def Let_def fields projs split: option.splits upload_reply.splits)

lemma get_image_path_frame:
  "index_file (snd (get_image_path cfg w f s)) = index_file s"
  "trace (snd (get_image_path cfg w f s)) = trace s"
  by (simp_all add: get_image_path_def Let_def fields split: option.splits)

lemma attach_image_frame:
  "index_file (snd (attach_image cfg w m s)) = index_file s"
  "dm_calls (trace (snd (attach_image cfg w m s))) = dm_calls (trace s)"
  "index_io (trace (snd (attach_image cfg w m s))) = index_io (trace s)"
  by (simp_all add: attach_image_def Let_def split_beta upload_media_frame get_image_path_frame
      split: option.splits)

lemma add_timestamp_frame:
  "index_file (snd (add_timestamp cfg w t s)) = index_file s"
  "trace (snd (add_timestamp cfg w t s)) = trace s"
  by (simp_all add: add_timestamp_def fields)

lemma send_dm_frame:
  "index_file (snd (send_dm w u t m s)) = index_file s"
  "dm_calls (trace (snd (send_dm w u t m s))) = dm_calls (trace s) @ [(u, t, if truthy m then m else None)]"
  "index_io (trace (snd (send_dm w u t m s))) = index_io (trace s)"
  by (simp_all add: send_dm_def Let_def fields projs split: dm_reply.splits)

lemma get_message_index_frame:
  "index_file (snd (get_message_index u s)) = index_file s"
  "dm_calls (trace (snd (get_message_index u s))) = dm_calls (trace s)"
  "index_io (trace (snd (get_message_index u s))) =
     index_io (trace s) @ (if index_file s = None then [] else [ReadIndex])"
  by (simp_all add: get_message_index_def fields projs split: option.splits)

lemma update_message_index_frame:
  "index_file (update_message_index u i s) =
     Some ((case index_file s of None \<Rightarrow> Map.empty | Some m \<Rightarrow> m)(u \<mapsto> i))"
  "dm_calls (trace (update_message_index u i s)) = dm_calls (trace s)"
  "index_io (trace (update_message_index u i s)) =
     index_io (trace s) @ (if index_file s = None then [] else [ReadIndex]) @ [WriteIndex]"
  by (simp_all add: update_message_index_def fields projs split: option.splits)

lemma select_message_rotate:
  "\<not> randomize cfg \<Longrightarrow>
   index_file (snd (select_message cfg w u ms s)) =
     Some ((case index_file s of None \<Rightarrow> Map.empty | Some m \<Rightarrow> m)(u \<mapsto> fst (get_message_index u s) + 1))"
  "\<not> randomize cfg \<Longrightarrow>
   index_io (trace (snd (select_message cfg w u ms s))) =
     index_io (trace s) @ (if index_file s = None then [] else [ReadIndex, ReadIndex]) @ [WriteIndex]"
  "\<not> randomize cfg \<Longrightarrow>
   fst (select_message cfg w u ms s) = ms ! nat (fst (get_message_index u s) mod int (length ms))"
  by (simp_all add: select_message_def Let_def split_beta get_message_index_frame
        update_message_index_frame split: option.splits)

lemma select_message_random:
  "randomize cfg \<Longrightarrow>
   index_file (snd (select_message cfg w u ms s)) = index_file s"
  "randomize cfg \<Longrightarrow>
   trace (snd (select_message cfg w u ms s)) = trace s"
  by (simp_all add: select_message_def fields)

lemma select_message_calls:
  "dm_calls (trace (snd (select_message cfg w u ms s))) = dm_calls (trace s)"
  by (simp add: select_message_def Let_def split_beta get_message_index_frame
        update_message_index_frame fields)

lemma accesses_frames:
  "accesses (trace (snd (upload_media cfg w p s))) = accesses (trace s)"
  "accesses (trace (snd (send_dm w u t m s))) = accesses (trace s) @ [GatewaySend u]"
  "accesses (trace (snd (get_message_index u s))) =
     accesses (trace s) @ (if index_file s = None then [] else [StoreRead])"
  "accesses (trace (update_message_index u i s)) =
     accesses (trace s) @ (if index_file s = None then [] else [StoreRead]) @ [StoreWrite]"
  by (simp_all add: upload_media_def send_dm_def get_message_index_def update_message_index_def
        Let_def fields accesses_simps split: option.splits upload_reply.splits dm_reply.splits)

lemma accesses_attach_image:
  "accesses (trace (snd (attach_image cfg w m s))) = accesses (trace s)"
  by (simp add: attach_image_def Let_def split_beta accesses_frames get_image_path_frame
      split: option.splits)

lemma accesses_select_message:
  "\<not> randomize cfg \<Longrightarrow>
   accesses (trace (snd (select_message cfg w u ms s))) =
     accesses (trace s) @ (if index_file s = None then [] else [StoreRead, StoreRead]) @ [StoreWrite]"
  by (simp add: select_message_def Let_def split_beta accesses_frames get_message_index_frame)

lemma outcomes_frames:
  "outcomes (trace (snd (upload_media cfg w p s))) = outcomes (trace s)"
  "outcomes (trace (snd (send_dm w u t m s))) = outcomes (trace s)"
  "outcomes (trace (snd (get_message_index u s))) = outcomes (trace s)"
  "outcomes (trace (update_message_index u i s)) = outcomes (trace s)"
  by (simp_all add: upload_media_def send_dm_def get_message_index_def update_message_index_def
        Let_def fields outcomes_simps split: option.splits upload_reply.splits dm_reply.splits)

lemma outcomes_attach_image:
  "outcomes (trace (snd (attach_image cfg w m s))) = outcomes (trace s)"
  by (simp add: attach_image_def Let_def split_beta outcomes_frames get_image_path_frame
      split: option.splits)

lemma outcomes_select_message:
  "outcomes (trace (snd (select_message cfg w u ms s))) = outcomes (trace s)"
  by (simp add: select_message_def Let_def split_beta outcomes_frames fields)

lemma upload_media_fails:
  assumes "\<not> path_exists w (tick s) p \<or>
     (\<exists>n. getsize w (Suc (tick s)) p = Some n \<and>
          of_nat n / (1024 * 1024) > (case max_image_size_mb cfg of None \<Rightarrow> 5 | Some m \<Rightarrow> m)) \<or>
     media_upload w (Suc (Suc (tick s))) p = UploadError"
  shows "fst (upload_media cfg w p s) = None"
  using assms
  by (auto simp add: upload_media_def Let_def fields split: option.splits upload_reply.splits)

section \<open>The loop body and the loop of DM.py\<close>

lemma dispatch_recipient_calls:
  "map fst (dm_calls (trace (dispatch_recipient cfg w r s))) =
     map fst (dm_calls (trace s)) @ (if dispatched cfg r then [the (user_id r)] else [])"
  by (simp add: dispatch_recipient_def dispatched_def Let_def split_beta fields projs
        send_dm_frame attach_image_frame add_timestamp_frame select_message_calls)

lemma dispatch_recipient_index_rotate:
  "\<not> randomize cfg \<Longrightarrow>
   index_file (dispatch_recipient cfg w r s) =
     (if dispatched cfg r
      then Some ((case index_file s of None \<Rightarrow> Map.empty | Some m \<Rightarrow> m)
                   (the (user_id r) \<mapsto> fst (get_message_index (the (user_id r)) s) + 1))
      else index_file s)"
  by (simp add: dispatch_recipient_def dispatched_def Let_def split_beta fields
        send_dm_frame attach_image_frame add_timestamp_frame select_message_rotate)

lemma dispatch_recipient_io_rotate:
  "\<not> randomize cfg \<Longrightarrow>
   index_io (trace (dispatch_recipient cfg w r s)) =
     index_io (trace s) @
     (if dispatched cfg r
      then (if index_file s = None then [] else [ReadIndex, ReadIndex]) @ [WriteIndex]
      else [])"
  by (simp add: dispatch_recipient_def dispatched_def Let_def split_beta fields projs
        send_dm_frame attach_image_frame add_timestamp_frame select_message_rotate)

lemma dispatch_recipient_random:
  "randomize cfg \<Longrightarrow>
   index_file (dispatch_recipient cfg w r s) = index_file s"
  "randomize cfg \<Longrightarrow>
   index_io (trace (dispatch_recipient cfg w r s)) = index_io (trace s)"
  by (simp_all add: dispatch_recipient_def Let_def split_beta fields projs
        send_dm_frame attach_image_frame add_timestamp_frame select_message_random)

lemma dispatch_recipient_texts:
  "\<not> randomize cfg \<Longrightarrow> enable_timestamp cfg = Some False \<Longrightarrow>
   dm_texts (trace (dispatch_recipient cfg w r s)) =
     dm_texts (trace s) @
     (if dispatched cfg r
      then [(the (user_id r),
             text_of (get_messages_for_recipient cfg r ! resolved_index cfg r s))]
      else [])"
  by (simp add: dm_texts_def dispatch_recipient_def dispatched_def resolved_index_def Let_def
        split_beta fields projs send_dm_frame attach_image_frame add_timestamp_frame
        select_message_calls select_message_rotate add_timestamp_def)

lemma cursor_after_dispatch:
  "\<not> randomize cfg \<Longrightarrow>
   fst (get_message_index u (dispatch_recipient cfg w r s)) =
     fst (get_message_index u s) + (if dispatched cfg r \<and> user_id r = Some u then 1 else 0)"
  by (auto simp add: dispatch_recipient_index_rotate get_message_index_def dispatched_def truthy_def
        split: option.splits)

lemma accesses_dispatch_recipient:
  "\<not> randomize cfg \<Longrightarrow>
   accesses (trace (dispatch_recipient cfg w r s)) =
     accesses (trace s) @
     (if dispatched cfg r
      then (if index_file s = None then [] else [StoreRead, StoreRead]) @
           [StoreWrite, GatewaySend (the (user_id r))]
      else [])"
  by (simp add: dispatch_recipient_def dispatched_def Let_def split_beta fields accesses_simps
        accesses_frames accesses_attach_image add_timestamp_frame accesses_select_message
        send_dm_frame attach_image_frame select_message_rotate)

lemma outcomes_dispatch_recipient:
  "\<exists>e. outcomes (trace (dispatch_recipient cfg w r s)) = outcomes (trace s) @ [e] \<and>
       (e = SkipDisabled (username r)) = (\<not> is_enabled r)"
  by (auto simp add: dispatch_recipient_def Let_def split_beta fields outcomes_simps
        outcomes_frames outcomes_attach_image add_timestamp_frame outcomes_select_message)


lemma outcomes_delivered:
  assumes "\<And>t u m x. create_direct_message w t u m x = Response True"
    and "dispatched cfg r"
  shows "outcomes (trace (dispatch_recipient cfg w r s)) =
           outcomes (trace s) @ [SendSucceeded (display_name r) (the (user_id r))]"
  using assms
  by (simp add: dispatch_recipient_def dispatched_def Let_def split_beta fields outcomes_simps
        outcomes_frames outcomes_attach_image add_timestamp_frame outcomes_select_message
        send_dm_def)

lemma for_recipients_calls:
  "map fst (dm_calls (trace (for_recipients cfg w rs s))) =
     map fst (dm_calls (trace s)) @ map (\<lambda>r. the (user_id r)) (filter (dispatched cfg) rs)"
  by (induction rs arbitrary: s) (simp_all add: dispatch_recipient_calls)


lemma for_recipients_random:
  "randomize cfg \<Longrightarrow> index_file (for_recipients cfg w rs s) = index_file s"
  "randomize cfg \<Longrightarrow> index_io (trace (for_recipients cfg w rs s)) = index_io (trace s)"
  by (induction rs arbitrary: s) (simp_all add: dispatch_recipient_random)

lemma run_cycles_random:
  "randomize cfg \<Longrightarrow> index_file (run_cycles cfg ws s) = index_file s"
  "randomize cfg \<Longrightarrow> index_io (trace (run_cycles cfg ws s)) = index_io (trace s)"
  by (induction ws arbitrary: s) (simp_all add: send_scheduled_messages_def for_recipients_random)

lemma for_recipients_outcomes:
  "length (outcomes (trace (for_recipients cfg w rs s))) = length (outcomes (trace s)) + length rs"
proof (induction rs arbitrary: s)
  case Nil
  then show ?case by simp
next
  case (Cons r rs)
  obtain e where "outcomes (trace (dispatch_recipient cfg w r s)) = outcomes (trace s) @ [e]"
    using outcomes_dispatch_recipient by blast
  then show ?case
    using Cons.IH [of "dispatch_recipient cfg w r s"] by simp
qed

lemma accesses_for_recipients:
  "\<not> randomize cfg \<Longrightarrow>
   accesses (trace (for_recipients cfg w rs s)) =
     accesses (trace s) @
     rotation_accesses (index_file s \<noteq> None)
       (map (\<lambda>r. the (user_id r)) (filter (dispatched cfg) rs))"
proof (induction rs arbitrary: s)
  case Nil
  then show ?case by simp
next
  case (Cons r rs)
  show ?case
  proof (cases "dispatched cfg r")
    case True
    then have "index_file (dispatch_recipient cfg w r s) \<noteq> None"
      using Cons.prems by (simp add: dispatch_recipient_index_rotate)
    then show ?thesis
      using Cons.IH [OF Cons.prems, of "dispatch_recipient cfg w r s"] Cons.prems True
      by (simp add: accesses_dispatch_recipient)
  next
    case False
    then have "index_file (dispatch_recipient cfg w r s) = index_file s"
      using Cons.prems by (simp add: dispatch_recipient_index_rotate)
    then show ?thesis
      using Cons.IH [OF Cons.prems, of "dispatch_recipient cfg w r s"] Cons.prems False
      by (simp add: accesses_dispatch_recipient)
  qed
qed

lemma cycle_of_three:
  assumes "\<not> randomize cfg" and "enable_timestamp cfg = Some False"
    and "recipient_list cfg = [r1, r2, r3]"
    and "dispatched cfg r1" and "dispatched cfg r2" and "dispatched cfg r3"
    and "user_id r1 = Some u1" and "user_id r2 = Some u2" and "user_id r3 = Some u3"
    and "distinct [u1, u2, u3]"
    and "get_messages_for_recipient cfg r1 = [a1, b1]"
    and "get_messages_for_recipient cfg r2 = [a2, b2]"
    and "get_messages_for_recipient cfg r3 = [a3, b3]"
    and "\<And>t u m x. create_direct_message w t u m x = Response True"
  shows "dm_texts (trace (send_scheduled_messages cfg w s)) =
           dm_texts (trace s) @
           [(u1, text_of ([a1, b1] ! nat (fst (get_message_index u1 s) mod 2))),
            (u2, text_of ([a2, b2] ! nat (fst (get_message_index u2 s) mod 2))),
            (u3, text_of ([a3, b3] ! nat (fst (get_message_index u3 s) mod 2)))]"
    and "outcomes (trace (send_scheduled_messages cfg w s)) =
           outcomes (trace s) @
           [SendSucceeded (display_name r1) u1, SendSucceeded (display_name r2) u2,
            SendSucceeded (display_name r3) u3]"
    and "fst (get_message_index u1 (send_scheduled_messages cfg w s)) = fst (get_message_index u1 s) + 1"
    and "fst (get_message_index u2 (send_scheduled_messages cfg w s)) = fst (get_message_index u2 s) + 1"
    and "fst (get_message_index u3 (send_scheduled_messages cfg w s)) = fst (get_message_index u3 s) + 1"
proof -
  from assms(10) have ne: "u1 \<noteq> u2" "u1 \<noteq> u3" "u2 \<noteq> u3" "u2 \<noteq> u1" "u3 \<noteq> u1" "u3 \<noteq> u2"
    by auto
  show "dm_texts (trace (send_scheduled_messages cfg w s)) =
           dm_texts (trace s) @
           [(u1, text_of ([a1, b1] ! nat (fst (get_message_index u1 s) mod 2))),
            (u2, text_of ([a2, b2] ! nat (fst (get_message_index u2 s) mod 2))),
            (u3, text_of ([a3, b3] ! nat (fst (get_message_index u3 s) mod 2)))]"
    using assms(1-9,11-13) ne
    by (simp add: send_scheduled_messages_def dispatch_recipient_texts resolved_index_def
          cursor_after_dispatch)
  show "outcomes (trace (send_scheduled_messages cfg w s)) =
           outcomes (trace s) @
           [SendSucceeded (display_name r1) u1, SendSucceeded (display_name r2) u2,
            SendSucceeded (display_name r3) u3]"
    using assms(3-9) by (simp add: send_scheduled_messages_def outcomes_delivered [OF assms(14)])
  show "fst (get_message_index u1 (send_scheduled_messages cfg w s)) = fst (get_message_index u1 s) + 1"
    "fst (get_message_index u2 (send_scheduled_messages cfg w s)) = fst (get_message_index u2 s) + 1"
    "fst (get_message_index u3 (send_scheduled_messages cfg w s)) = fst (get_message_index u3 s) + 1"
    using assms(1,3-9) ne
    by (simp_all add: send_scheduled_messages_def cursor_after_dispatch)
qed

section \<open>Facts about dm\_sender.py\<close>

lemma generate_message_success:
  assumes "generated cfg w s = Some t"
  shows "fst (generate_message cfg w s) =
           Inr (if length (strip t) > 9500 then take 9500 (strip t) @ ascii ''...'' else strip t)"
  using assms
  by (auto simp add: generate_message_def generated_def Let_def advance_def emit_def
      split: option.splits if_splits)

lemma generate_message_failure:
  assumes "generated cfg w s = None" and "fallback_pool cfg \<noteq> []"
  shows "fst (generate_message cfg w s) =
           Inr (fallback_pool cfg !
                  (random_choice w (fallback_time cfg s) mod length (fallback_pool cfg)))"
  using assms
  by (auto simp add: generate_message_def generated_def fallback_message_def fallback_time_def
        Let_def advance_def emit_def split: option.splits if_splits)

lemma generated_with_draw:
  "generated cfg (with_draw w (fallback_time cfg s) d) s = generated cfg w s"
  by (simp add: generated_def with_draw_def fallback_time_def split: option.splits)

lemma draws_enumerate:
  "map (\<lambda>d. Inr (xs ! (d mod length xs)) :: 'e + 'a) [0..<length xs] = map Inr xs"
  by (rule nth_equalityI) simp_all

lemma fallback_message_quiet:
  "conversation_calls (trace (snd (fallback_message cfg w s))) = conversation_calls (trace s)"
  by (simp add: fallback_message_def Let_def advance_def)

lemma generate_message_quiet:
  "conversation_calls (trace (snd (generate_message cfg w s))) = conversation_calls (trace s)"
  by (simp add: generate_message_def Let_def advance_def emit_def fallback_message_quiet
        conversation_calls_simps split: option.splits)

lemma sender_upload_media_quiet:
  "conversation_calls (trace (snd (sender_upload_media w p s))) = conversation_calls (trace s)"
  by (simp add: sender_upload_media_def Let_def advance_def emit_def conversation_calls_simps
        split: option.splits upload_reply.splits)

lemma sender_upload_media_result:
  "sender_upload_media w p s = (media_id, s') \<Longrightarrow>
   conversation_calls (trace s') = conversation_calls (trace s)"
  using sender_upload_media_quiet [of w p s] by simp

lemma prepare_dm_quiet:
  assumes "prepare_dm cfg w s = Inr (message, media_id, s1)"
  shows "conversation_calls (trace s1) = conversation_calls (trace s)"
proof -
  obtain g sg where g: "generate_message cfg w s = (g, sg)"
    by (cases "generate_message cfg w s")
  then have sg: "conversation_calls (trace sg) = conversation_calls (trace s)"
    using generate_message_quiet [of cfg w s] by simp
  from assms g obtain m where m: "g = Inr m"
    by (cases g) (simp_all add: prepare_dm_def)
  from assms g m sg show ?thesis
    by (auto simp add: prepare_dm_def Let_def advance_def
        split: if_splits option.splits prod.splits dest!: sender_upload_media_result)
qed

section \<open>The claims\<close>




text \<open>
  Claim C2, as amended. A rotating cycle accesses the rotation store once per recipient
  it sends to, not once per cycle: for each such recipient, in order, it reads
  \<^verbatim>\<open>message_index.json\<close> twice when the file exists (in \<^verbatim>\<open>get_message_index\<close> and again
  in \<^verbatim>\<open>update_message_index\<close>), rewrites it, and only then sends the message. Nothing
  is read before the loop or written after it.
\<close>

theorem store_accessed_per_recipient:
  assumes "\<not> randomize cfg"
  shows "accesses (trace (send_scheduled_messages cfg w s)) =
     accesses (trace s) @
     rotation_accesses (index_file s \<noteq> None)
       (map (\<lambda>r. the (user_id r)) (filter (dispatched cfg) (recipient_list cfg)))"
  using assms by (simp add: send_scheduled_messages_def accesses_for_recipients)

text \<open>
  The theorem on the example document, from a state where the file does not exist.
\<close>

theorem store_accessed_per_recipient_witness:
  "\<not> randomize example_config \<and>
   accesses (trace (send_scheduled_messages example_config refusing_world fresh_state)) =
     rotation_accesses False [''1001'', ''1002'', ''1003'']"
proof -
  have a: "\<not> randomize example_config"
    by (simp add: run_defs example_defs)
  have b: "map (\<lambda>r. the (user_id r)) (filter (dispatched example_config) (recipient_list example_config))
      = [''1001'', ''1002'', ''1003'']"
    by (simp add: run_defs example_defs)
  have c: "accesses (trace fresh_state) = []" "index_file fresh_state = None"
    by (simp_all add: fresh_state_def accesses_def)
  from store_accessed_per_recipient [OF a, of refusing_world fresh_state] a b c show ?thesis
    by simp
qed

text \<open>
  Claim C2 as stated fails. In one cycle over three recipients the store is rewritten
  three times and read four times, and every rewrite but the first stands between two
  sends.
\<close>

theorem store_rewritten_between_sends:
  "accesses (trace (send_scheduled_messages example_config quiet_world fresh_state)) =
     [StoreWrite, GatewaySend ''1001'',
      StoreRead, StoreRead, StoreWrite, GatewaySend ''1002'',
      StoreRead, StoreRead, StoreWrite, GatewaySend ''1003'']"
  by (simp add: run_defs example_defs accesses_def)

text \<open>
  Claim C3. In every world, that is whatever the gateway answers to each upload and each
  message, the recipients a cycle sends a direct message to are exactly the recipients
  of the configuration that are enabled, have an identifier and have a message, in the
  order of the configuration, and the loop logs one outcome for every recipient of the
  configuration. A failure for one recipient therefore removes no later recipient. The
  cycle is a total function: \<^verbatim>\<open>upload_media\<close> and \<^verbatim>\<open>send_dm\<close> turn every
  exception into a return value, so no failure of theirs leaves the loop. (Reading and
  rewriting \<^verbatim>\<open>message_index.json\<close> are taken to succeed.)
\<close>

theorem failure_isolation:
  "map fst (dm_calls (trace (send_scheduled_messages cfg w s))) =
     map fst (dm_calls (trace s)) @
     map (\<lambda>r. the (user_id r)) (filter (dispatched cfg) (recipient_list cfg)) \<and>
   length (outcomes (trace (send_scheduled_messages cfg w s))) =
     length (outcomes (trace s)) + length (recipient_list cfg)"
  by (simp add: send_scheduled_messages_def for_recipients_calls for_recipients_outcomes)

text \<open>
  The theorem in a world whose gateway refuses every message: all three sends fail and
  all three are attempted.
\<close>

theorem failure_isolation_witness:
  "outcomes (trace (send_scheduled_messages example_config refusing_world fresh_state)) =
     [SendFailed ''alice'' ''1001'', SendFailed ''bob'' ''1002'', SendFailed ''carol'' ''1003''] \<and>
   map fst (dm_calls (trace (send_scheduled_messages example_config refusing_world fresh_state))) =
     [''1001'', ''1002'', ''1003'']"
proof -
  have "outcomes (trace (send_scheduled_messages example_config refusing_world fresh_state)) =
     [SendFailed ''alice'' ''1001'', SendFailed ''bob'' ''1002'', SendFailed ''carol'' ''1003'']"
    by (simp add: run_defs example_defs outcomes_def)
  moreover have "map (\<lambda>r. the (user_id r)) (filter (dispatched example_config) (recipient_list example_config))
      = [''1001'', ''1002'', ''1003'']"
    by (simp add: run_defs example_defs)
  moreover have "dm_calls (trace fresh_state) = []"
    by (simp add: fresh_state_def dm_calls_def)
  ultimately show ?thesis
    using failure_isolation [of example_config refusing_world fresh_state] by simp
qed

text \<open>
  Claim C4. Let the loop body reach the upload of the image of the selected candidate:
  the candidate \<open>md\<close> has an image, \<^verbatim>\<open>get_image_path\<close> has found the path \<open>p\<close>, and
  the composed text is \<open>full_message\<close>. If the upload fails because the file is missing
  by then, because its size is above the configured ceiling (5 MB by default), or
  because the gateway's upload raises, then \<^verbatim>\<open>upload_media\<close> returns \<^verbatim>\<open>None\<close> and the
  body still requests exactly one direct message for the recipient, with the composed
  text and no media.
\<close>

theorem failed_upload_sends_text_only:
  assumes "dispatched cfg r"
    and "select_message cfg w (the (user_id r)) (get_messages_for_recipient cfg r) s0 = (md, s1)"
    and "add_timestamp cfg w (text_of md) s1 = (full_message, s2)"
    and "truthy (msg_image md)"
    and "get_image_path cfg w (msg_image md) s2 = (Some p, s3)"
    and "\<not> path_exists w (tick s3) p \<or>
     (\<exists>n. getsize w (Suc (tick s3)) p = Some n \<and>
          of_nat n / (1024 * 1024) > (case max_image_size_mb cfg of None \<Rightarrow> 5 | Some m \<Rightarrow> m)) \<or>
     media_upload w (Suc (Suc (tick s3))) p = UploadError"
  shows "fst (upload_media cfg w p s3) = None \<and>
         dm_calls (trace (dispatch_recipient cfg w r s0)) =
           dm_calls (trace s0) @ [(the (user_id r), full_message, None)]"
proof -
  have up: "fst (upload_media cfg w p s3) = None"
    using assms(6) by (rule upload_media_fails)
  have att: "fst (attach_image cfg w md s2) = None"
    using assms(4,5) up by (simp add: attach_image_def)
  have "dm_calls (trace (snd (attach_image cfg w md s2))) = dm_calls (trace s0)"
    using assms(2,3) select_message_calls [of cfg w "the (user_id r)" "get_messages_for_recipient cfg r" s0]
      add_timestamp_frame(2) [of cfg w "text_of md" s1]
    by (simp add: attach_image_frame)
  then have "dm_calls (trace (dispatch_recipient cfg w r s0)) =
           dm_calls (trace s0) @ [(the (user_id r), full_message, None)]"
    using assms(1,2,3) att
    by (simp add: dispatch_recipient_def dispatched_def Let_def split_beta fields projs
        send_dm_frame truthy_def)
  with up show ?thesis by simp
qed

text \<open>
  The theorem for \<^verbatim>\<open>carol\<close>, whose first candidate carries \<^verbatim>\<open>cat.png\<close>, in a world where
  that file has 6000000 bytes.
\<close>

theorem failed_upload_sends_text_only_witness:
  "dispatched example_config carol \<and>
   fst (upload_media example_config big_image_world ''images/cat.png''
          \<lparr>index_file = Some [''1003'' \<mapsto> 1], trace = [WriteIndex], tick = 1\<rparr>) = None \<and>
   dm_calls (trace (dispatch_recipient example_config big_image_world carol fresh_state)) =
     [(''1003'', ''look'', None)]"
proof -
  let ?s1 = "\<lparr>index_file = Some [''1003'' \<mapsto> 1], trace = [WriteIndex], tick = 0\<rparr>"
  let ?md = "\<lparr>msg_text = Some ''look'', msg_image = Some ''cat.png''\<rparr>"
  have a: "dispatched example_config carol"
    by (simp add: run_defs example_defs)
  have b: "select_message example_config big_image_world (the (user_id carol))
             (get_messages_for_recipient example_config carol) fresh_state = (?md, ?s1)"
    by (simp add: run_defs example_defs)
  have c: "add_timestamp example_config big_image_world (text_of ?md) ?s1 = (''look'', ?s1)"
    by (simp add: run_defs example_defs)
  have d: "truthy (msg_image ?md)"
    by (simp add: truthy_def)
  have e: "get_image_path example_config big_image_world (msg_image ?md) ?s1 =
             (Some ''images/cat.png'', ?s1\<lparr>tick := 1\<rparr>)"
    by (simp add: run_defs example_defs)
  have f: "\<not> path_exists big_image_world (tick (?s1\<lparr>tick := 1\<rparr>)) ''images/cat.png'' \<or>
     (\<exists>n. getsize big_image_world (Suc (tick (?s1\<lparr>tick := 1\<rparr>))) ''images/cat.png'' = Some n \<and>
          of_nat n / (1024 * 1024) >
            (case max_image_size_mb example_config of None \<Rightarrow> 5 | Some m \<Rightarrow> m)) \<or>
     media_upload big_image_world (Suc (Suc (tick (?s1\<lparr>tick := 1\<rparr>)))) ''images/cat.png'' = UploadError"
    by (simp add: example_defs)
  have h: "dm_calls (trace fresh_state) = []" "the (user_id carol) = ''1003''"
    by (simp_all add: fresh_state_def dm_calls_def carol_def)
  from failed_upload_sends_text_only [OF a b c d e f] a h show ?thesis
    by simp
qed

text \<open>
  Claim C5 (\<^verbatim>\<open>dm_sender.py\<close>). Let the loop body for a target user with an identifier
  have prepared the message and the media without an exception, and let the gateway
  answer the send with the rate-limit signal. Then the body requests that one direct
  message, sleeps 900 seconds (15 minutes), logs the failure, sleeps the usual 3
  seconds, and leaves \<^verbatim>\<open>success_count\<close> as it was; the preparation requested no direct
  message, so the one request is the only one for this user in the body (no retry);
  and the loop goes on with the remaining users from the resulting state.
\<close>

theorem rate_limit_pauses_and_continues:
  assumes "truthy (tu_user_id u)"
    and "prepare_dm cfg w s = Inr (message, media_id, s1)"
    and "create_conversation_message w (tick s1) (the (tu_user_id u)) message
           (if truthy_id media_id then media_id else None) = TooManyRequests"
  shows "dispatch_target_user cfg w u (n, s) =
           Inr (n, s1\<lparr>trace := trace s1 @
                        [CreateDMConversation (the (tu_user_id u)) message
                           (if truthy_id media_id then media_id else None),
                         Sleep 900, SendFailed (target_name u) (the (tu_user_id u)), Sleep 3],
                      tick := Suc (tick s1)\<rparr>) \<and>
         conversation_calls (trace s1) = conversation_calls (trace s) \<and>
         for_target_users cfg w (u # us) (n, s) =
           for_target_users cfg w us
             (n, s1\<lparr>trace := trace s1 @
                        [CreateDMConversation (the (tu_user_id u)) message
                           (if truthy_id media_id then media_id else None),
                         Sleep 900, SendFailed (target_name u) (the (tu_user_id u)), Sleep 3],
                      tick := Suc (tick s1)\<rparr>)"
proof -
  have "dispatch_target_user cfg w u (n, s) =
           Inr (n, s1\<lparr>trace := trace s1 @
                        [CreateDMConversation (the (tu_user_id u)) message
                           (if truthy_id media_id then media_id else None),
                         Sleep 900, SendFailed (target_name u) (the (tu_user_id u)), Sleep 3],
                      tick := Suc (tick s1)\<rparr>)"
    using assms
    by (simp add: dispatch_target_user_def send_dm_to_user_def Let_def emit_def advance_def)
  then show ?thesis
    using prepare_dm_quiet [OF assms(2)] by simp
qed

text \<open>
  The theorem on two target users, the first of which meets the rate limit: the second
  is sent to after the pause, and one success is counted.
\<close>

theorem rate_limit_pauses_and_continues_witness:
  "truthy (tu_user_id erin) \<and>
   send_messages_to_all sender_example limited_world fresh_state =
     Inr (1, \<lparr>index_file = None,
              trace = [GenerateContent (ascii ''say hello''),
                       CreateDMConversation ''2001'' (ascii ''hello there'') None,
                       Sleep 900, SendFailed ''erin'' ''2001'', Sleep 3,
                       GenerateContent (ascii ''say hello''),
                       CreateDMConversation ''2002'' (ascii ''hello there'') None,
                       SendSucceeded ''Unknown'' ''2002'', Sleep 3],
              tick = 6\<rparr>)"
proof -
  let ?s1 = "\<lparr>index_file = None, trace = [GenerateContent (ascii ''say hello'')], tick = 2\<rparr>"
  have a: "truthy (tu_user_id erin)"
    by (simp add: truthy_def erin_def)
  have b: "prepare_dm sender_example limited_world fresh_state = Inr (ascii ''hello there'', None, ?s1)"
    by (simp add: sender_defs sender_examples)
  have c: "create_conversation_message limited_world (tick ?s1) (the (tu_user_id erin))
             (ascii ''hello there'') (if truthy_id None then None else None) = TooManyRequests"
    by (simp add: sender_examples)
  have d: "for_target_users sender_example limited_world [frank]
             (0, \<lparr>index_file = None,
                  trace = [GenerateContent (ascii ''say hello''),
                           CreateDMConversation ''2001'' (ascii ''hello there'') None,
                           Sleep 900, SendFailed ''erin'' ''2001'', Sleep 3],
                  tick = 3\<rparr>) =
     Inr (1, \<lparr>index_file = None,
              trace = [GenerateContent (ascii ''say hello''),
                       CreateDMConversation ''2001'' (ascii ''hello there'') None,
                       Sleep 900, SendFailed ''erin'' ''2001'', Sleep 3,
                       GenerateContent (ascii ''say hello''),
                       CreateDMConversation ''2002'' (ascii ''hello there'') None,
                       SendSucceeded ''Unknown'' ''2002'', Sleep 3],
              tick = 6\<rparr>)"
    by (simp add: sender_defs sender_examples)
  have e: "target_users sender_example = [erin, frank]" "the (tu_user_id erin) = ''2001''"
    "target_name erin = ''erin''"
    by (simp_all add: sender_example_def erin_def target_name_def)
  from rate_limit_pauses_and_continues [OF a b c, of 0 "[frank]"] a d e show ?thesis
    by (simp add: send_messages_to_all_def truthy_id_def)
qed

text \<open>
  Claim C6. Under the random policy, after any number of cycles in any worlds, the
  content of \<^verbatim>\<open>message_index.json\<close> is what it was (for every recipient), and the
  cycles have neither read nor written the file.
\<close>

theorem randomize_leaves_cursor:
  assumes "randomize cfg"
  shows "index_file (run_cycles cfg ws s) = index_file s \<and>
         index_io (trace (run_cycles cfg ws s)) = index_io (trace s)"
  using assms by (simp add: run_cycles_random)

text \<open>
  The theorem on three cycles of the example document with the random policy.
\<close>

theorem randomize_leaves_cursor_witness:
  "randomize random_config \<and>
   index_file (run_cycles random_config [quiet_world, refusing_world, big_image_world] fresh_state) = None \<and>
   index_io (trace (run_cycles random_config [quiet_world, refusing_world, big_image_world] fresh_state)) = []"
proof -
  have a: "randomize random_config"
    by (simp add: run_defs example_defs)
  have b: "index_file fresh_state = None" "index_io (trace fresh_state) = []"
    by (simp_all add: fresh_state_def index_io_def)
  from randomize_leaves_cursor [OF a, of "[quiet_world, refusing_world, big_image_world]" fresh_state] a b
  show ?thesis by simp
qed

text \<open>
  Claim C7. \<^verbatim>\<open>get_messages_for_recipient\<close> returns the (normalized) inline list of the
  recipient when that list is present and not empty. Otherwise it looks the recipient's
  category (\<^verbatim>\<open>custom\<close> when none is named) up in the template mapping and returns the
  (normalized) list found there, and when the mapping has no such key it returns the
  fixed default list of one message without image.
\<close>

theorem message_source_priority:
  "(custom_messages r = Some cs \<and> cs \<noteq> [] \<longrightarrow>
      get_messages_for_recipient cfg r = map normalize cs) \<and>
   ((custom_messages r = None \<or> custom_messages r = Some []) \<and>
    templates_of cfg (category_of r) = Some l \<longrightarrow>
      get_messages_for_recipient cfg r = map normalize l) \<and>
   ((custom_messages r = None \<or> custom_messages r = Some []) \<and>
    templates_of cfg (category_of r) = None \<longrightarrow>
      get_messages_for_recipient cfg r =
        [\<lparr>msg_text = Some default_text, msg_image = None\<rparr>])"
  by (auto simp add: get_messages_for_recipient_def default_messages_def normalize_def Let_def
      split: option.splits list.splits)

text \<open>
  The theorem at three recipients of the example document, one for each source.
\<close>

theorem message_source_priority_witness:
  "get_messages_for_recipient example_config carol =
     [\<lparr>msg_text = Some ''look'', msg_image = Some ''cat.png''\<rparr>,
      \<lparr>msg_text = Some ''bye'', msg_image = None\<rparr>] \<and>
   get_messages_for_recipient example_config bob =
     [\<lparr>msg_text = Some ''good morning'', msg_image = None\<rparr>,
      \<lparr>msg_text = Some ''good evening'', msg_image = None\<rparr>] \<and>
   get_messages_for_recipient example_config dave =
     [\<lparr>msg_text = Some default_text, msg_image = None\<rparr>]"
proof -
  have a: "custom_messages carol =
       Some [Structured \<lparr>msg_text = Some ''look'', msg_image = Some ''cat.png''\<rparr>, Plain ''bye'']"
    by (simp add: carol_def)
  have b: "custom_messages bob = Some []"
    "templates_of example_config (category_of bob) =
       Some [Plain ''good morning'', Plain ''good evening'']"
    by (simp_all add: bob_def example_config_def templates_of_def category_of_def)
  have c: "custom_messages dave = None" "templates_of example_config (category_of dave) = None"
    by (simp_all add: dave_def example_config_def templates_of_def category_of_def)
  from message_source_priority [of carol "[Structured \<lparr>msg_text = Some ''look'', msg_image = Some ''cat.png''\<rparr>, Plain ''bye'']"
         example_config "[]"]
       message_source_priority [of bob "[]" example_config "[Plain ''good morning'', Plain ''good evening'']"]
       message_source_priority [of dave "[]" example_config "[]"] a b c
  show ?thesis
    by (simp add: normalize_def)
qed

text \<open>
  Claim C8. Three recipients that the cycle sends to, with distinct identifiers and two
  candidates each, rotation policy, timestamp disabled, all cursors at 0, and gateways
  that deliver every message. The first cycle sends the first candidate to each and
  leaves every cursor at 1; the second sends the second candidate to each and leaves
  every cursor at 2; the third sends the first candidate again. All nine sends are
  logged as successes.
\<close>

theorem rotation_scenario:
  assumes "\<not> randomize cfg" and "enable_timestamp cfg = Some False"
    and "recipient_list cfg = [r1, r2, r3]"
    and "dispatched cfg r1" and "dispatched cfg r2" and "dispatched cfg r3"
    and "user_id r1 = Some u1" and "user_id r2 = Some u2" and "user_id r3 = Some u3"
    and "distinct [u1, u2, u3]"
    and "get_messages_for_recipient cfg r1 = [a1, b1]"
    and "get_messages_for_recipient cfg r2 = [a2, b2]"
    and "get_messages_for_recipient cfg r3 = [a3, b3]"
    and "fst (get_message_index u1 s0) = 0"
    and "fst (get_message_index u2 s0) = 0"
    and "fst (get_message_index u3 s0) = 0"
    and "\<And>t u m x. create_direct_message w1 t u m x = Response True"
    and "\<And>t u m x. create_direct_message w2 t u m x = Response True"
    and "\<And>t u m x. create_direct_message w3 t u m x = Response True"
  shows "dm_texts (trace (run_cycles cfg [w1] s0)) =
           dm_texts (trace s0) @ [(u1, text_of a1), (u2, text_of a2), (u3, text_of a3)] \<and>
         map (\<lambda>u. fst (get_message_index u (run_cycles cfg [w1] s0))) [u1, u2, u3] = [1, 1, 1] \<and>
         dm_texts (trace (run_cycles cfg [w1, w2] s0)) =
           dm_texts (trace (run_cycles cfg [w1] s0)) @
           [(u1, text_of b1), (u2, text_of b2), (u3, text_of b3)] \<and>
         map (\<lambda>u. fst (get_message_index u (run_cycles cfg [w1, w2] s0))) [u1, u2, u3] = [2, 2, 2] \<and>
         dm_texts (trace (run_cycles cfg [w1, w2, w3] s0)) =
           dm_texts (trace (run_cycles cfg [w1, w2] s0)) @
           [(u1, text_of a1), (u2, text_of a2), (u3, text_of a3)] \<and>
         outcomes (trace (run_cycles cfg [w1, w2, w3] s0)) =
           outcomes (trace s0) @
           concat (replicate 3
             [SendSucceeded (display_name r1) u1, SendSucceeded (display_name r2) u2,
              SendSucceeded (display_name r3) u3])"
proof -
  note c1 = cycle_of_three [OF assms(1-13) assms(17)]
  note c2 = cycle_of_three [OF assms(1-13) assms(18)]
  note c3 = cycle_of_three [OF assms(1-13) assms(19)]
  show ?thesis
    using assms(14-16)
    by (simp add: c1 c2 c3 numeral_3_eq_3)
qed

text \<open>
  The theorem on the example document.
\<close>

theorem rotation_scenario_witness:
  "\<not> randomize example_config \<and> distinct [''1001'', ''1002'', ''1003''] \<and>
   dm_texts (trace (run_cycles example_config [quiet_world] fresh_state)) =
     [(''1001'', ''hello''), (''1002'', ''good morning''), (''1003'', ''look'')] \<and>
   map (\<lambda>u. fst (get_message_index u (run_cycles example_config [quiet_world] fresh_state)))
     [''1001'', ''1002'', ''1003''] = [1, 1, 1] \<and>
   dm_texts (trace (run_cycles example_config [quiet_world, quiet_world] fresh_state)) =
     [(''1001'', ''hello''), (''1002'', ''good morning''), (''1003'', ''look''),
      (''1001'', ''again''), (''1002'', ''good evening''), (''1003'', ''bye'')] \<and>
   map (\<lambda>u. fst (get_message_index u (run_cycles example_config [quiet_world, quiet_world] fresh_state)))
     [''1001'', ''1002'', ''1003''] = [2, 2, 2] \<and>
   dm_texts (trace (run_cycles example_config [quiet_world, quiet_world, quiet_world] fresh_state)) =
     [(''1001'', ''hello''), (''1002'', ''good morning''), (''1003'', ''look''),
      (''1001'', ''again''), (''1002'', ''good evening''), (''1003'', ''bye''),
      (''1001'', ''hello''), (''1002'', ''good morning''), (''1003'', ''look'')]"
proof -
  have rot: "\<not> randomize example_config" and ts: "enable_timestamp example_config = Some False"
    and rl: "recipient_list example_config = [alice, bob, carol]"
    by (simp_all add: randomize_def recipient_list_def example_config_def)
  have d: "dispatched example_config alice" "dispatched example_config bob"
    "dispatched example_config carol"
    by (simp_all add: run_defs example_defs)
  have u: "user_id alice = Some ''1001''" "user_id bob = Some ''1002''"
    "user_id carol = Some ''1003''"
    by (simp_all add: alice_def bob_def carol_def)
  have dist: "distinct [''1001'', ''1002'', ''1003'']"
    by simp
  have m: "get_messages_for_recipient example_config alice =
       [\<lparr>msg_text = Some ''hello'', msg_image = None\<rparr>,
        \<lparr>msg_text = Some ''again'', msg_image = None\<rparr>]"
    "get_messages_for_recipient example_config bob =
       [\<lparr>msg_text = Some ''good morning'', msg_image = None\<rparr>,
        \<lparr>msg_text = Some ''good evening'', msg_image = None\<rparr>]"
    "get_messages_for_recipient example_config carol =
       [\<lparr>msg_text = Some ''look'', msg_image = Some ''cat.png''\<rparr>,
        \<lparr>msg_text = Some ''bye'', msg_image = None\<rparr>]"
    by (simp_all add: run_defs example_defs)
  have c: "fst (get_message_index ''1001'' fresh_state) = 0"
    "fst (get_message_index ''1002'' fresh_state) = 0"
    "fst (get_message_index ''1003'' fresh_state) = 0"
    by (simp_all add: get_message_index_def fresh_state_def)
  have w: "\<And>t u m x. create_direct_message quiet_world t u m x = Response True"
    by (simp add: quiet_world_def)
  have e: "dm_texts (trace fresh_state) = []"
    by (simp add: dm_texts_def dm_calls_def fresh_state_def)
  from rotation_scenario [OF rot ts rl d u dist m c w w w] rot dist e show ?thesis
    by (simp add: text_of_def)
qed




text \<open>
  Claim C10, as amended (\<^verbatim>\<open>dm_sender.py\<close>). When the generation succeeds,
  \<^verbatim>\<open>generate_message\<close> returns the stripped response text, cut to its first 9500
  characters followed by \<^verbatim>\<open>...\<close> when it is longer than 9500: at most 9503 characters.
  When the generation raises and the fallback pool is not empty, it returns the message
  that \<^verbatim>\<open>random.choice\<close> draws from the fallback pool, as it stands there and of whatever
  length: the entry at the position drawn. The draw is uniform over the pool: as the raw
  draw takes each of its \<open>n\<close> equally likely values (\<open>n\<close> the size of the pool),
  everything else in the world unchanged, the method returns each entry of the pool
  once, position by position.
\<close>

theorem generated_message_bounded:
  "(generated cfg w s = Some t \<longrightarrow>
      fst (generate_message cfg w s) =
        Inr (if length (strip t) > 9500 then take 9500 (strip t) @ ascii ''...'' else strip t) \<and>
      length (if length (strip t) > 9500 then take 9500 (strip t) @ ascii ''...'' else strip t)
        \<le> 9503) \<and>
   (generated cfg w s = None \<and> fallback_pool cfg \<noteq> [] \<longrightarrow>
      fst (generate_message cfg w s) =
        Inr (fallback_pool cfg !
               (random_choice w (fallback_time cfg s) mod length (fallback_pool cfg))) \<and>
      map (\<lambda>d. fst (generate_message cfg (with_draw w (fallback_time cfg s) d) s))
        [0..<length (fallback_pool cfg)] = map Inr (fallback_pool cfg))"
proof -
  have bound: "length (if length (strip t) > 9500 then take 9500 (strip t) @ ascii ''...''
                       else strip t) \<le> 9503"
    by (simp add: ascii_def)
  have enum: "map (\<lambda>d. fst (generate_message cfg (with_draw w (fallback_time cfg s) d) s))
        [0..<length (fallback_pool cfg)] = map Inr (fallback_pool cfg)"
    if none: "generated cfg w s = None" and pool: "fallback_pool cfg \<noteq> []"
  proof -
    have "fst (generate_message cfg (with_draw w (fallback_time cfg s) d) s) =
            Inr (fallback_pool cfg ! (d mod length (fallback_pool cfg)))" for d
      using generate_message_failure [of cfg "with_draw w (fallback_time cfg s) d" s] none pool
      by (simp add: generated_with_draw) (simp add: with_draw_def)
    then show ?thesis
      by (simp add: draws_enumerate)
  qed
  from bound enum show ?thesis
    by (simp add: generate_message_success generate_message_failure)
qed

text \<open>
  The theorem on a generation that succeeds with 9600 characters between two spaces,
  which comes back as 9500 characters and three dots, and on a failing generation with
  a pool of three, where the draw at time 2 picks the third message and the three
  values of the draw give the three messages.
\<close>

theorem generated_message_bounded_witness:
  "generated sender_example wordy_world fresh_state = Some ([32] @ replicate 9600 120 @ [32]) \<and>
   fst (generate_message sender_example wordy_world fresh_state) =
     Inr (replicate 9500 120 @ [46, 46, 46]) \<and>
   length (replicate 9500 (120::nat) @ [46, 46, 46]) = 9503 \<and>
   generated pool_of_three quiet_world fresh_state = None \<and>
   fst (generate_message pool_of_three quiet_world fresh_state) = Inr (ascii ''three'') \<and>
   map (\<lambda>d. fst (generate_message pool_of_three (with_draw quiet_world 2 d) fresh_state))
     [0, 1, 2] = [Inr (ascii ''one''), Inr (ascii ''two''), Inr (ascii ''three'')]"
proof -
  have a: "generated sender_example wordy_world fresh_state =
             Some ([32] @ replicate 9600 120 @ [32])"
    "generated pool_of_three quiet_world fresh_state = None"
    by (simp_all add: generated_def sender_examples)
  have b: "strip ([32] @ replicate 9600 120 @ [32]) = replicate 9600 120"
    by (simp add: strip_def is_space_def)
  have c: "fallback_pool pool_of_three = [ascii ''one'', ascii ''two'', ascii ''three'']"
    "fallback_time pool_of_three fresh_state = 2"
    "random_choice quiet_world 2 = 2"
    by (simp_all add: fallback_pool_def fallback_time_def sender_examples)
  have d: "[0..<3] = [0, 1, 2]"
    by (simp add: upt_rec)
  have e: "ascii ''...'' = [46, 46, 46]"
    by (simp add: ascii_def)
  from generated_message_bounded
         [of sender_example wordy_world fresh_state "[32] @ replicate 9600 120 @ [32]"]
       generated_message_bounded [of pool_of_three quiet_world fresh_state "[]"] a b c d e
  show ?thesis by (simp add: numeral_2_eq_2)
qed

text \<open>
  Claim C10 as stated fails. The generation raises, the pool holds one message of 9504
  characters, and \<^verbatim>\<open>generate_message\<close> returns it whole: more than 9503 characters.
\<close>

theorem fallback_message_not_truncated:
  "generated long_fallback quiet_world fresh_state = None \<and>
   fst (generate_message long_fallback quiet_world fresh_state) = Inr (replicate 9504 120) \<and>
   length (replicate 9504 (120::nat)) = 9504"
  by (simp add: sender_defs sender_examples)

end
